theory Spec2Isabelle
  imports Main "HOL-Library.Sublist"
begin

section \<open>PyPass: the character classes and their registry (password.py)\<close>

text \<open>
  The script builds an alphabet out of character classes. Each class is a subclass of
  \<open>CharClass\<close> with three methods (\<open>default_state\<close>, \<open>get_chars\<close>, \<open>name\<close>) and one
  mutable field \<open>_state\<close>, read and written through the property \<open>state\<close>. A \<open>ClassMgr\<close>
  keeps a list of registered instances and concatenates the characters of those whose
  \<open>state\<close> is true. \<open>main\<close> parses four \<open>store_true\<close> options, registers the module-level
  instances selected by the parsed values, and prints the aggregate.
\<close>

subsection \<open>The constants of Python's \<open>string\<close> module\<close>

text \<open>
  \<open>string.ascii_lowercase\<close>, \<open>string.ascii_uppercase\<close>, \<open>string.digits\<close> and
  \<open>string.punctuation\<close> as the standard library defines them. The double quote, the
  apostrophe, the backslash and the backquote of \<open>punctuation\<close> are written by code.
\<close>

definition ascii_lowercase :: string where
  "ascii_lowercase = ''abcdefghijklmnopqrstuvwxyz''"

definition ascii_uppercase :: string where
  "ascii_uppercase = ''ABCDEFGHIJKLMNOPQRSTUVWXYZ''"

definition digits :: string where
  "digits = ''0123456789''"

definition punctuation :: string where
  "punctuation = ''!'' @ [CHR 0x22] @ ''#$%&'' @ [CHR 0x27] @ ''()*+,-./:;<=>?@[''
     @ [CHR 0x5C] @ '']^_'' @ [CHR 0x60] @ ''{|}~''"

subsection \<open>\<open>CharClass\<close> and its four subclasses\<close>

text \<open>
  The subclass of an instance decides which method bodies run; the instance itself
  carries the field \<open>_state\<close>.
\<close>

datatype kind = AlphaLower | AlphaUpper | NumberDigit | Symbol

record CharClass =
  cls :: kind
  state :: bool

text \<open>
  \<open>default_state\<close> is called by \<open>__init__\<close> before \<open>_state\<close> exists, so it can only
  depend on the subclass.
\<close>

fun default_state :: "kind \<Rightarrow> bool" where
  "default_state AlphaLower = True"
| "default_state AlphaUpper = True"
| "default_state NumberDigit = True"
| "default_state Symbol = False"

text \<open>\<open>get_chars(self)\<close> and the property \<open>name\<close> receive the whole instance.\<close>

definition get_chars :: "CharClass \<Rightarrow> string" where
  "get_chars self =
     (case cls self of
        AlphaLower \<Rightarrow> ascii_lowercase
      | AlphaUpper \<Rightarrow> ascii_uppercase
      | NumberDigit \<Rightarrow> digits
      | Symbol \<Rightarrow> punctuation)"

definition name :: "CharClass \<Rightarrow> string" where
  "name self =
     (case cls self of
        AlphaLower \<Rightarrow> ''Lowercase Alphabetic''
      | AlphaUpper \<Rightarrow> ''Uppercase Alphabetic''
      | NumberDigit \<Rightarrow> ''Numerical Digits''
      | Symbol \<Rightarrow> ''Symbols'')"

text \<open>\<open>CharClass.__init__\<close>: \<open>self.state = self.default_state()\<close>.\<close>

definition CharClass_init :: "kind \<Rightarrow> CharClass" where
  "CharClass_init k = \<lparr>cls = k, state = default_state k\<rparr>"

text \<open>The setter of the property \<open>state\<close>: \<open>self._state = new_state\<close>.\<close>

definition state_setter :: "CharClass \<Rightarrow> bool \<Rightarrow> CharClass" where
  "state_setter self new_state = self\<lparr>state := new_state\<rparr>"

subsection \<open>\<open>ClassMgr\<close>\<close>

text \<open>
  The manager's only field is the list \<open>_char_classes\<close>. The list is modelled with the
  registered instances in it, flags included, so the value of a \<open>ClassMgr\<close> is the whole
  state a method of it can read or write. A method is a function from the state before
  the call to the state after it, with the returned value in front when there is one.
\<close>

type_synonym ClassMgr = "CharClass list"

definition ClassMgr_init :: ClassMgr where
  "ClassMgr_init = []"

definition register :: "CharClass \<Rightarrow> ClassMgr \<Rightarrow> ClassMgr" where
  "register char_cls self = self @ [char_cls]"

text \<open>
  \<open>''.join(char_cls.get_chars() for char_cls in self._char_classes if char_cls.state)\<close>;
  nothing is assigned, so the state after the call is the state before it.
\<close>

definition get_all_chars :: "ClassMgr \<Rightarrow> string \<times> ClassMgr" where
  "get_all_chars self =
     (concat (map get_chars (filter state self)), self)"

definition ClassMgr_default :: ClassMgr where
  "ClassMgr_default =
     register (CharClass_init Symbol)
       (register (CharClass_init NumberDigit)
         (register (CharClass_init AlphaUpper)
           (register (CharClass_init AlphaLower) ClassMgr_init)))"

subsection \<open>The command line\<close>

text \<open>
  The module-level dictionary \<open>char_classes\<close>, in insertion order. Its values are
  created once, when the module is loaded, and no statement of the module assigns to
  their \<open>state\<close> afterwards.
\<close>

definition char_classes :: "(string \<times> CharClass) list" where
  "char_classes =
     [(''lower'', CharClass_init AlphaLower),
      (''upper'', CharClass_init AlphaUpper),
      (''digit'', CharClass_init NumberDigit),
      (''symbol'', CharClass_init Symbol)]"

text \<open>
  One \<open>add_argument\<close> call of \<open>parser\<close>: the two option strings, the destination, the
  default and the help text. The action is \<open>store_true\<close> for all of them. The keys of
  \<open>char_classes\<close> are non-empty literals, so \<open>char_cls[0]\<close> is their first character.
\<close>

record argument =
  short_id :: string
  long_id :: string
  dest :: string
  default_value :: bool
  help_text :: string

definition parser :: "argument list" where
  "parser =
     map (\<lambda>(char_cls, obj).
            \<lparr>short_id = ''-'' @ [hd char_cls],
             long_id = ''--'' @ char_cls,
             dest = char_cls,
             default_value = state obj,
             help_text = ''Enable the Character Class: '' @ name obj @ ''.''\<rparr>)
         char_classes"

text \<open>
  \<open>parse_args\<close> is argparse's. What the script relies on is modelled: the command line
  is given as the list \<open>given\<close> of the destinations whose option occurs on it (argparse
  has matched the option strings and rejects a malformed command line itself, before
  \<open>main\<close> goes on), and the namespace lists the destinations in the order of the
  \<open>add_argument\<close> calls. A \<open>store_true\<close> option yields \<open>True\<close> when it occurs and its
  default when it does not.
\<close>

definition parse_args :: "argument list \<Rightarrow> string list \<Rightarrow> (string \<times> bool) list" where
  "parse_args par given =
     map (\<lambda>a. (dest a, if dest a \<in> set given then True else default_value a)) par"

datatype error = KeyError string

text \<open>
  The loop of \<open>main\<close> over \<open>vars(args).items()\<close>; the subscript \<open>char_classes[name]\<close>
  raises \<open>KeyError\<close> on a missing key.
\<close>

fun register_selected :: "(string \<times> bool) list \<Rightarrow> ClassMgr \<Rightarrow> error + ClassMgr" where
  "register_selected [] mgr = Inr mgr"
| "register_selected ((nm, st) # items) mgr =
     (if st then
        (case map_of char_classes nm of
           None \<Rightarrow> Inl (KeyError nm)
         | Some char_cls \<Rightarrow> register_selected items (register char_cls mgr))
      else register_selected items mgr)"

text \<open>\<open>print\<close> writes its argument and a newline; the result is the text on standard output.\<close>

definition print :: "string \<Rightarrow> string" where
  "print s = s @ [CHR 0x0A]"

definition main :: "string list \<Rightarrow> error + string" where
  "main given =
     (case register_selected (parse_args parser given) ClassMgr_init of
        Inl e \<Rightarrow> Inl e
      | Inr mgr \<Rightarrow> Inr (print (fst (get_all_chars mgr))))"

subsection \<open>A caller that sets the flags of a registry\<close>

text \<open>
  The script never assigns to \<open>state\<close>; a caller of the classes does, as in
  \<open>for c in mgr._char_classes: c.state = enabled(type(c))\<close>. The instances of a
  registry built by \<open>ClassMgr.default\<close> are fresh and registered once each, so the
  assignment changes exactly the entry it is made through.
\<close>

definition set_states :: "(kind \<Rightarrow> bool) \<Rightarrow> ClassMgr \<Rightarrow> ClassMgr" where
  "set_states enabled self = map (\<lambda>c. state_setter c (enabled (cls c))) self"

section \<open>Properties\<close>

subsection \<open>Shared facts\<close>

lemmas string_consts = ascii_lowercase_def ascii_uppercase_def digits_def punctuation_def

text \<open>
  The three classes whose default is true are registered whatever the command line
  holds; \<open>Symbol\<close> is registered when its option occurs. Every registered instance is
  the module-level one, with the flag \<open>__init__\<close> gave it.
\<close>

lemma register_selected_parser:
  "register_selected (parse_args parser given) ClassMgr_init =
     Inr ([CharClass_init AlphaLower, CharClass_init AlphaUpper, CharClass_init NumberDigit]
          @ (if ''symbol'' \<in> set given then [CharClass_init Symbol] else []))"
  by (simp add: parse_args_def parser_def char_classes_def CharClass_init_def
      ClassMgr_init_def register_def)

lemma main_output:
  "main given = Inr (print (ascii_lowercase @ ascii_uppercase @ digits))"
  by (simp add: main_def register_selected_parser get_all_chars_def get_chars_def
      CharClass_init_def)

lemma if_subseq: "subseq (if b then xs else []) xs"
  by simp

subsection \<open>The command line (C1 to C3)\<close>

text \<open>
  C1, as stated: with \<open>--symbol\<close> alone the printed line is \<open>string.punctuation\<close>.
  It is not: the line printed for that command line differs from the punctuation string.
\<close>

theorem main_symbol_not_punctuation:
  "main [''symbol''] \<noteq> Inr (print punctuation)"
  by (simp add: main_output print_def ascii_lowercase_def punctuation_def)

text \<open>
  C1, amended: with \<open>--symbol\<close> alone the classes lower, upper and digit stay enabled,
  since no option disables them, and the printed line begins with
  \<open>ascii_lowercase + ascii_uppercase + digits\<close>. What follows these 62 characters is
  left open here.
\<close>

theorem main_symbol_keeps_defaults:
  "\<exists>rest. main [''symbol''] =
     Inr (print (ascii_lowercase @ ascii_uppercase @ digits @ rest))"
  by (rule exI [of _ "[]"]) (simp add: main_output)

text \<open>
  C2: for every command line, each class that is enabled by default has its characters
  in the printed line, as one contiguous block: the command line cannot disable it.
\<close>

theorem main_default_enabled_included:
  assumes "default_state k"
  shows "\<exists>out. main given = Inr (print out) \<and> sublist (get_chars (CharClass_init k)) out"
proof -
  let ?out = "ascii_lowercase @ ascii_uppercase @ digits"
  have "sublist (get_chars (CharClass_init k)) ?out"
  proof (cases k)
    case AlphaLower
    then show ?thesis by (simp add: get_chars_def CharClass_init_def)
  next
    case AlphaUpper
    then show ?thesis
      by (simp add: get_chars_def CharClass_init_def sublist_appendI)
  next
    case NumberDigit
    have "?out = (ascii_lowercase @ ascii_uppercase) @ digits @ []" by simp
    then have "sublist digits ?out" unfolding sublist_def by blast
    with NumberDigit show ?thesis
      by (simp add: get_chars_def CharClass_init_def)
  next
    case Symbol
    with assms show ?thesis by simp
  qed
  then show ?thesis using main_output by blast
qed

theorem main_default_enabled_included_witness:
  "default_state NumberDigit \<and>
   (\<exists>out. main [''symbol''] = Inr (print out) \<and>
      sublist (get_chars (CharClass_init NumberDigit)) out)"
  using main_default_enabled_included [of NumberDigit "[''symbol'']"] by simp

text \<open>
  C3: any two command lines print the same text, \<open>ascii_lowercase + ascii_uppercase +
  digits\<close> and a newline. The instances that \<open>main\<close> registers carry the flag of their
  class's default, whatever was parsed, and \<open>get_all_chars\<close> filters by that flag.
\<close>

theorem main_ignores_flags:
  "main given = main given' \<and>
   main given = Inr (print (ascii_lowercase @ ascii_uppercase @ digits)) \<and>
   (\<exists>mgr. register_selected (parse_args parser given) ClassMgr_init = Inr mgr \<and>
      map state mgr = map (default_state \<circ> cls) mgr)"
  by (simp add: main_output register_selected_parser CharClass_init_def)

subsection \<open>The registry (C4 to C10)\<close>

text \<open>
  C4: the aggregate of the default registry is lowercase, then uppercase, then digits;
  it has 62 characters and none of them is a character of the symbol class.
\<close>

theorem default_aggregate:
  "fst (get_all_chars ClassMgr_default) = ascii_lowercase @ ascii_uppercase @ digits \<and>
   length (fst (get_all_chars ClassMgr_default)) = 62 \<and>
   set (get_chars (CharClass_init Symbol)) \<inter> set (fst (get_all_chars ClassMgr_default)) = {}"
  by (simp add: get_all_chars_def ClassMgr_default_def ClassMgr_init_def register_def
      CharClass_init_def get_chars_def string_consts)

text \<open>
  C5: in the default registry with the flag of \<open>Symbol\<close> set to true and the other three
  set to false, the aggregate is exactly \<open>string.punctuation\<close>, of that string's length, 32.
\<close>

theorem symbol_only_aggregate:
  "fst (get_all_chars (set_states (\<lambda>k. k = Symbol) ClassMgr_default)) = punctuation \<and>
   length (fst (get_all_chars (set_states (\<lambda>k. k = Symbol) ClassMgr_default))) =
     length punctuation \<and>
   length punctuation = 32"
  by (simp add: get_all_chars_def ClassMgr_default_def ClassMgr_init_def register_def
      CharClass_init_def get_chars_def set_states_def state_setter_def punctuation_def)

text \<open>
  C6: whichever classes of the default registry are enabled, the aggregate is the
  enabled ones among lower, upper, digit, symbol in this order; it is what remains of
  the full alphabet when the disabled blocks are removed, so no flag reorders it.
\<close>

theorem default_aggregate_order:
  "fst (get_all_chars (set_states enabled ClassMgr_default)) =
     (if enabled AlphaLower then ascii_lowercase else []) @
     (if enabled AlphaUpper then ascii_uppercase else []) @
     (if enabled NumberDigit then digits else []) @
     (if enabled Symbol then punctuation else []) \<and>
   subseq (fst (get_all_chars (set_states enabled ClassMgr_default)))
     (ascii_lowercase @ ascii_uppercase @ digits @ punctuation)"
proof -
  let ?blocks = "(if enabled AlphaLower then ascii_lowercase else []) @
     (if enabled AlphaUpper then ascii_uppercase else []) @
     (if enabled NumberDigit then digits else []) @
     (if enabled Symbol then punctuation else [])"
  have eq: "fst (get_all_chars (set_states enabled ClassMgr_default)) = ?blocks"
    by (simp add: get_all_chars_def ClassMgr_default_def ClassMgr_init_def register_def
        CharClass_init_def get_chars_def set_states_def state_setter_def)
  have "subseq ?blocks (ascii_lowercase @ ascii_uppercase @ digits @ punctuation)"
    by (intro list_emb_append_mono if_subseq)
  with eq show ?thesis by simp
qed

theorem default_aggregate_order_witness:
  "fst (get_all_chars (set_states (\<lambda>k. k = Symbol \<or> k = AlphaLower) ClassMgr_default)) =
     ascii_lowercase @ punctuation"
  using default_aggregate_order [of "\<lambda>k. k = Symbol \<or> k = AlphaLower"] by simp

text \<open>
  C7: a registry none of whose instances is enabled, the empty one included, has the
  empty string as its aggregate. \<open>get_all_chars\<close> has no failing branch: it returns a
  string for every registry.
\<close>

theorem none_enabled_aggregate_empty:
  "(\<forall>c \<in> set mgr. \<not> state c) \<Longrightarrow> get_all_chars mgr = ([], mgr)"
  by (simp add: get_all_chars_def filter_False)

theorem none_enabled_aggregate_empty_witness:
  "get_all_chars [CharClass_init Symbol, state_setter (CharClass_init AlphaLower) False] =
     ([], [CharClass_init Symbol, state_setter (CharClass_init AlphaLower) False]) \<and>
   get_all_chars ClassMgr_init = ([], ClassMgr_init)"
  using
    none_enabled_aggregate_empty
      [of "[CharClass_init Symbol, state_setter (CharClass_init AlphaLower) False]"]
    none_enabled_aggregate_empty [of ClassMgr_init]
  by (simp add: CharClass_init_def state_setter_def ClassMgr_init_def)

text \<open>
  C8: a call of \<open>get_all_chars\<close> leaves the registry, flags included, as it was, and a
  second call right after the first returns the same string and again changes nothing.
\<close>

theorem get_all_chars_twice:
  "snd (get_all_chars mgr) = mgr \<and>
   fst (get_all_chars (snd (get_all_chars mgr))) = fst (get_all_chars mgr) \<and>
   snd (get_all_chars (snd (get_all_chars mgr))) = mgr"
  by (simp add: get_all_chars_def)

text \<open>
  C9: for an instance of any of the four classes, \<open>get_chars\<close> is a non-empty string
  without a repeated character; it is the same after the flag is assigned, and is the
  string of a fresh instance of the same class.
\<close>

theorem get_chars_fixed:
  "get_chars c \<noteq> [] \<and> distinct (get_chars c) \<and>
   get_chars (state_setter c b) = get_chars c \<and>
   get_chars c = get_chars (CharClass_init (cls c))"
  by (cases "cls c")
    (simp_all add: get_chars_def state_setter_def CharClass_init_def string_consts)

text \<open>
  C10: registering \<open>c\<close> appends the characters of \<open>c\<close> to the aggregate when \<open>c\<close> is
  enabled and leaves the aggregate as it was otherwise. Nothing is deduplicated: an
  enabled class registered twice has its characters twice in the aggregate.
\<close>

theorem register_appends:
  "fst (get_all_chars (register c r)) =
     fst (get_all_chars r) @ (if state c then get_chars c else []) \<and>
   (state c \<longrightarrow>
      fst (get_all_chars (register c (register c r))) =
        fst (get_all_chars r) @ get_chars c @ get_chars c)"
  by (simp add: get_all_chars_def register_def)

theorem register_appends_witness:
  "state (CharClass_init NumberDigit) \<and>
   fst (get_all_chars (register (CharClass_init NumberDigit)
          (register (CharClass_init NumberDigit) ClassMgr_init))) = digits @ digits"
  using register_appends [of "CharClass_init NumberDigit" ClassMgr_init]
  by (simp add: CharClass_init_def get_all_chars_def ClassMgr_init_def get_chars_def)

end
